theory Spec2Isabelle
  imports Complex_Main "HOL-Library.Word"
begin

unbundle bit_operations_syntax

section \<open>Data model of led\_strip.h and led\_strip.c\<close>

text \<open>
  Machine types: \<open>led_strip_color_component_t\<close> is \<open>uint8_t\<close>, \<open>led_strip_pixel_index_t\<close>
  is \<open>uint16_t\<close>, the timing fields are 15-bit bit-fields of \<open>uint16_t\<close>, and \<open>size_t\<close>
  is 32 bits wide on the ESP32 targets the driver is written for.
\<close>

type_synonym u8 = "8 word"
type_synonym u15 = "15 word"
type_synonym u16 = "16 word"
type_synonym size_t = "32 word"

text \<open>
  Undefined behaviour of the C code is a value of the model: dereferencing \<open>NULL\<close>, using a
  handle that is not (or no longer) allocated, and indexing outside an array.
\<close>

datatype fault = Null_deref | Dangling | Out_of_bounds

text \<open>
  The \<open>esp_err_t\<close> codes of ESP-IDF the driver returns or compares against; any other
  code the RMT driver may hand back is \<open>ESP_ERR_OTHER\<close> with its number.
\<close>

datatype esp_err =
    ESP_OK
  | ESP_FAIL
  | ESP_ERR_NO_MEM
  | ESP_ERR_INVALID_ARG
  | ESP_ERR_INVALID_STATE
  | ESP_ERR_INVALID_SIZE
  | ESP_ERR_NOT_FOUND
  | ESP_ERR_NOT_SUPPORTED
  | ESP_ERR_TIMEOUT
  | ESP_ERR_NOT_FINISHED
  | ESP_ERR_OTHER int

datatype led_strip_color_order = LED_STRIP_COLOR_ORDER_RGBW | LED_STRIP_COLOR_ORDER_GRBW

record led_strip_color =
  r :: u8
  g :: u8
  b :: u8
  w :: u8

record led_strip_manual_timing =
  low_on :: u15
  low_off :: u15
  high_on :: u15
  high_off :: u15
  reset_time :: u15

text \<open>
  \<open>rmt_item32_t\<close> is the symbol type of the ESP-IDF RMT driver: two 15-bit durations, each
  with a 1-bit level. The translator assigns all four fields.
\<close>

record rmt_item32 =
  duration0 :: u15
  level0 :: "1 word"
  duration1 :: u15
  level1 :: "1 word"

text \<open>
  \<open>struct led_strip\<close>. The pixel array is a heap block of its own in C; no other pointer
  to it exists, so the record holds its contents.
\<close>

record led_strip =
  channel :: nat
  led_timing :: led_strip_manual_timing
  color_order :: led_strip_color_order
  pixel_colors :: "u8 list"
  led_count :: u16
  enable_w_channel :: bool
  has_flushed :: bool

section \<open>The symbol translator\<close>

text \<open>\<open>#define BIT_SET(val, bit) (((val) & (1UL << (bit))) == (1UL << (bit)))\<close>\<close>

definition BIT_SET :: "32 word \<Rightarrow> nat \<Rightarrow> bool" where
  "BIT_SET val bit_no = (val AND push_bit bit_no 1 = push_bit bit_no 1)"

text \<open>
  \<open>translate_uint8_to_rmt_samples(items, data, timing)\<close>. The pointer \<open>items\<close> is the
  array it points into together with the offset \<open>base\<close> of its first element; the loop
  variable \<open>i\<close> runs from 0 to 7 and \<open>b_index = 7 - i\<close>.
\<close>

function translate_loop ::
  "nat \<Rightarrow> rmt_item32 list \<Rightarrow> nat \<Rightarrow> u8 \<Rightarrow> led_strip_manual_timing \<Rightarrow> fault + rmt_item32 list"
where
  "translate_loop i items base data timing =
     (if i < 8 then
        (if base + i < length items then
           let b_index = 7 - i;
               it = items ! (base + i);
               it = (if BIT_SET (ucast data) b_index
                     then it\<lparr>duration0 := high_on timing, duration1 := high_off timing\<rparr>
                     else it\<lparr>duration0 := low_on timing, duration1 := low_off timing\<rparr>);
               it = it\<lparr>level0 := 1, level1 := 0\<rparr>
           in translate_loop (i + 1) (items[base + i := it]) base data timing
         else Inl Out_of_bounds)
      else Inr items)"
  by pat_completeness auto
termination
  by (relation "measure (\<lambda>(i, items, base, data, timing). 8 - i)") auto

declare translate_loop.simps [simp del]

definition translate_uint8_to_rmt_samples ::
  "rmt_item32 list \<Rightarrow> nat \<Rightarrow> u8 \<Rightarrow> led_strip_manual_timing \<Rightarrow> fault + rmt_item32 list"
where
  "translate_uint8_to_rmt_samples items base data timing = translate_loop 0 items base data timing"

text \<open>
  \<open>rmt_adapter(src, dest, src_size, wanted_num, translated_size, item_num)\<close>, the callback
  the RMT driver invokes from its interrupt handler. \<open>get_context\<close> is what the driver's
  \<open>rmt_translator_get_context\<close> answers: its return code and the \<open>user_data\<close> pointer
  (0 is \<open>NULL\<close>). \<open>hnd\<close> is the object \<open>user_data\<close> points to, read for
  \<open>handle->led_timing\<close> in every iteration. The result is the \<open>dest\<close> array after the
  call together with \<open>*translated_size\<close> and \<open>*item_num\<close>.
\<close>

function adapter_loop ::
  "size_t \<Rightarrow> size_t \<Rightarrow> size_t \<Rightarrow> u8 list \<Rightarrow> led_strip option \<Rightarrow> rmt_item32 list
     \<Rightarrow> fault + (rmt_item32 list \<times> size_t)"
where
  "adapter_loop i convertable_bytes rmt_item_offset raw_data hnd dest =
     (if i < convertable_bytes then
        (case hnd of
           None \<Rightarrow> Inl Dangling
         | Some handle \<Rightarrow>
             if unat i < length raw_data then
               (case translate_uint8_to_rmt_samples dest (unat rmt_item_offset)
                       (raw_data ! unat i) (led_timing handle) of
                  Inl f \<Rightarrow> Inl f
                | Inr dest' \<Rightarrow>
                    adapter_loop (i + 1) convertable_bytes (rmt_item_offset + 8) raw_data hnd dest')
             else Inl Out_of_bounds)
      else Inr (dest, rmt_item_offset))"
  by pat_completeness auto
termination
proof (relation "measure (\<lambda>(i, cb, off, raw, hnd, dest). unat cb - unat i)")
  show "wf (measure (\<lambda>(i, cb, off, raw, hnd, dest). unat cb - unat i))"
    by simp
next
  fix i convertable_bytes :: size_t
  fix rmt_item_offset :: size_t and raw_data :: "u8 list" and hnd :: "led_strip option"
  fix dest :: "rmt_item32 list" and x2 :: led_strip and x2a :: "rmt_item32 list"
  assume lt: "i < convertable_bytes"
  then have "unat i < unat convertable_bytes"
    by (simp add: word_less_nat_alt)
  moreover from lt have "unat (i + 1) = Suc (unat i)"
    by unat_arith
  ultimately show "((i + 1, convertable_bytes, rmt_item_offset + 8, raw_data, hnd, x2a),
      (i, convertable_bytes, rmt_item_offset, raw_data, hnd, dest))
    \<in> measure (\<lambda>(i, cb, off, raw, hnd, dest). unat cb - unat i)"
    by simp
qed

declare adapter_loop.simps [simp del]

definition rmt_adapter ::
  "esp_err \<times> nat \<Rightarrow> (nat \<Rightarrow> led_strip option) \<Rightarrow> u8 list \<Rightarrow> rmt_item32 list \<Rightarrow> size_t \<Rightarrow> size_t
     \<Rightarrow> fault + (rmt_item32 list \<times> size_t \<times> size_t)"
where
  "rmt_adapter get_context hp src dest src_size wanted_num =
     (let translated_size = 0; item_num = 0; raw_data = src in
      if fst get_context \<noteq> ESP_OK then Inr (dest, translated_size, item_num)
      else if snd get_context = 0 then Inr (dest, translated_size, item_num)
      else if wanted_num < 8 then Inr (dest, translated_size, item_num)
      else
        let convertable_bytes = wanted_num div 8;
            convertable_bytes = (if convertable_bytes > src_size then src_size else convertable_bytes)
        in case adapter_loop 0 convertable_bytes 0 raw_data (hp (snd get_context)) dest of
             Inl f \<Rightarrow> Inl f
           | Inr (dest', rmt_item_offset) \<Rightarrow> Inr (dest', convertable_bytes, rmt_item_offset))"

section \<open>Timing tables\<close>

text \<open>
  The macros of led\_strip.h. \<open>LED_STRIP_NS_PER_SECOND\<close> is the \<open>double\<close> literal
  \<open>1e9\<close>, so C evaluates \<open>LED_STRIP_NS_PER_TICK\<close>, \<open>LED_STRIP_ROUND_UP\<close> and
  \<open>LED_STRIP_NS_AS_TICKS\<close> in \<open>double\<close>; \<open>APB_CLK_FREQ / LED_STRIP_CLOCK_DIVIDER\<close> is
  an integer division. The model computes the same expressions in exact real
  arithmetic (the rounding of \<open>double\<close> is not modelled). \<open>APB_CLK_FREQ\<close> is a constant
  of the ESP-IDF platform headers and is a parameter here.
\<close>

definition LED_STRIP_CLOCK_DIVIDER :: nat where
  "LED_STRIP_CLOCK_DIVIDER = 8"

definition LED_STRIP_NS_PER_SECOND :: real where
  "LED_STRIP_NS_PER_SECOND = 10 ^ 9"

definition LED_STRIP_NS_PER_TICK :: "nat \<Rightarrow> real" where
  "LED_STRIP_NS_PER_TICK apb_clk_freq =
     LED_STRIP_NS_PER_SECOND / of_nat (apb_clk_freq div LED_STRIP_CLOCK_DIVIDER)"

definition LED_STRIP_ROUND_UP :: "real \<Rightarrow> real \<Rightarrow> real" where
  "LED_STRIP_ROUND_UP x align = ((x + align - 1) / align) * align"

definition LED_STRIP_NS_AS_TICKS :: "nat \<Rightarrow> real \<Rightarrow> real" where
  "LED_STRIP_NS_AS_TICKS apb_clk_freq x =
     LED_STRIP_ROUND_UP x (LED_STRIP_NS_PER_TICK apb_clk_freq) / LED_STRIP_NS_PER_TICK apb_clk_freq"

definition LED_STRIP_US_AS_TICKS :: "nat \<Rightarrow> real \<Rightarrow> real" where
  "LED_STRIP_US_AS_TICKS apb_clk_freq x = LED_STRIP_NS_AS_TICKS apb_clk_freq (x * 1000)"

text \<open>
  Initialising a 15-bit bit-field from a non-negative \<open>double\<close>: the fraction is
  discarded. A value that does not fit the field is outside what C defines; the model
  keeps its low 15 bits.
\<close>

definition to_bitfield15 :: "real \<Rightarrow> u15" where
  "to_bitfield15 x = word_of_int \<lfloor>x\<rfloor>"

text \<open>\<open>enum led_strip_type\<close>: an \<open>int\<close> that can hold values other than the two named.\<close>

definition LED_STRIP_TYPE_SK6822 :: int where
  "LED_STRIP_TYPE_SK6822 = 0x01"

definition LED_STRIP_TYPE_WS281x :: int where
  "LED_STRIP_TYPE_WS281x = 0x03"

text \<open>
  \<open>led_strip_timing_config_t\<close>. The members \<open>timing.type\<close> and \<open>timing.manual\<close> form a
  union in C; \<open>map_timing\<close> reads only the one \<open>use_manual_timing\<close> selects, and the
  record keeps each under its own field.
\<close>

record led_strip_timing_config =
  timing_type :: int
  timing_manual :: led_strip_manual_timing
  use_manual_timing :: bool

record led_strip_config =
  timing_config :: led_strip_timing_config
  cfg_color_order :: led_strip_color_order
  gpio_output_num :: int
  cfg_led_count :: u16
  cfg_enable_w_channel :: bool

definition zero_timing :: led_strip_manual_timing where
  "zero_timing = \<lparr>low_on = 0, low_off = 0, high_on = 0, high_off = 0, reset_time = 0\<rparr>"

text \<open>
  The local array \<open>timing[]\<close> of \<open>map_timing\<close>: designated initialisers at indices
  \<open>LED_STRIP_TYPE_SK6822 = 1\<close> and \<open>LED_STRIP_TYPE_WS281x = 3\<close>, zeroes at 0 and 2.
\<close>

definition timing_table :: "nat \<Rightarrow> led_strip_manual_timing list" where
  "timing_table apb_clk_freq =
     [ zero_timing,
       \<lparr>low_on = to_bitfield15 (LED_STRIP_NS_AS_TICKS apb_clk_freq 300),
        low_off = to_bitfield15 (LED_STRIP_NS_AS_TICKS apb_clk_freq 900),
        high_on = to_bitfield15 (LED_STRIP_NS_AS_TICKS apb_clk_freq 600),
        high_off = to_bitfield15 (LED_STRIP_NS_AS_TICKS apb_clk_freq 600),
        reset_time = to_bitfield15 (LED_STRIP_US_AS_TICKS apb_clk_freq 80)\<rparr>,
       zero_timing,
       \<lparr>low_on = to_bitfield15 (LED_STRIP_NS_AS_TICKS apb_clk_freq 350),
        low_off = to_bitfield15 (LED_STRIP_NS_AS_TICKS apb_clk_freq 900),
        high_on = to_bitfield15 (LED_STRIP_NS_AS_TICKS apb_clk_freq 900),
        high_off = to_bitfield15 (LED_STRIP_NS_AS_TICKS apb_clk_freq 350),
        reset_time = to_bitfield15 (LED_STRIP_US_AS_TICKS apb_clk_freq 50)\<rparr> ]"

definition map_timing :: "nat \<Rightarrow> led_strip_timing_config \<Rightarrow> led_strip_manual_timing" where
  "map_timing apb_clk_freq config =
     (if use_manual_timing config then timing_manual config
      else
        let timing = timing_table apb_clk_freq in
        if timing_type config = LED_STRIP_TYPE_SK6822 \<or> timing_type config = LED_STRIP_TYPE_WS281x
        then timing ! nat (timing_type config)
        else timing ! nat LED_STRIP_TYPE_SK6822)"

section \<open>Colours and the pixel buffer\<close>

text \<open>\<open>#define CALC_COLOR_SIZE(handle) (handle->enable_w_channel ? 4 : 3)\<close>\<close>

definition CALC_COLOR_SIZE :: "bool \<Rightarrow> nat" where
  "CALC_COLOR_SIZE enable_w = (if enable_w then 4 else 3)"

definition convert_from_rgbw_to_rgb :: "led_strip_color \<Rightarrow> led_strip_color" where
  "convert_from_rgbw_to_rgb color = \<lparr>r = r color, g = g color, b = b color, w = 0x00\<rparr>"

definition convert_from_rgb_to_rgbw :: "led_strip_color \<Rightarrow> led_strip_color" where
  "convert_from_rgb_to_rgbw color = \<lparr>r = r color, g = g color, b = b color, w = 0x00\<rparr>"

text \<open>One assignment \<open>handle->pixel_colors[offset] = v\<close>; the C code checks no bound.\<close>

definition store_component :: "led_strip \<Rightarrow> nat \<Rightarrow> u8 \<Rightarrow> fault + led_strip" where
  "store_component handle offset v =
     (if offset < length (pixel_colors handle)
      then Inr (handle\<lparr>pixel_colors := (pixel_colors handle)[offset := v]\<rparr>)
      else Inl Out_of_bounds)"

text \<open>
  \<open>set_color_data(handle, index, color)\<close>. \<open>offset\<close> is at most \<open>4 * 65535\<close>, so the
  \<open>size_t\<close> arithmetic cannot wrap and the offsets are natural numbers. The \<open>default\<close>
  label of the \<open>switch\<close> shares the \<open>LED_STRIP_COLOR_ORDER_RGBW\<close> branch.
\<close>

definition set_color_data :: "led_strip \<Rightarrow> u16 \<Rightarrow> led_strip_color \<Rightarrow> fault + led_strip" where
  "set_color_data handle index color =
     (let offset = CALC_COLOR_SIZE (enable_w_channel handle) * unat index;
          (r_offset, g_offset, b_offset, w_offset) =
            (case color_order handle of
               LED_STRIP_COLOR_ORDER_GRBW \<Rightarrow> (offset + 2, offset, offset + 1, offset + 3)
             | LED_STRIP_COLOR_ORDER_RGBW \<Rightarrow> (offset, offset + 2, offset + 1, offset + 3))
      in case (if enable_w_channel handle then store_component handle w_offset (w color)
               else Inr handle) of
           Inl f \<Rightarrow> Inl f
         | Inr h1 \<Rightarrow>
             (case store_component h1 r_offset (r color) of
                Inl f \<Rightarrow> Inl f
              | Inr h2 \<Rightarrow>
                  (case store_component h2 g_offset (g color) of
                     Inl f \<Rightarrow> Inl f
                   | Inr h3 \<Rightarrow> store_component h3 b_offset (b color))))"

text \<open>
  The loop \<open>for (led_strip_pixel_index_t i = 0; i < handle->led_count; i++)\<close> of
  \<open>led_strip_fill_rgb\<close> and \<open>led_strip_fill_rgbw\<close>, started at \<open>i\<close>.
\<close>

function fill_loop :: "u16 \<Rightarrow> led_strip \<Rightarrow> led_strip_color \<Rightarrow> fault + led_strip" where
  "fill_loop i handle color =
     (if i < led_count handle then
        (case set_color_data handle i color of
           Inl f \<Rightarrow> Inl f
         | Inr handle' \<Rightarrow> fill_loop (i + 1) handle' color)
      else Inr handle)"
  by pat_completeness auto
termination
proof (relation "measure (\<lambda>(i, handle, color). unat (led_count handle) - unat i)")
  show "wf (measure (\<lambda>(i, handle, color). unat (led_count handle) - unat i))"
    by simp
next
  fix i :: u16 and handle :: led_strip and color :: led_strip_color and x2 :: led_strip
  assume lt: "i < led_count handle" and s: "set_color_data handle i color = Inr x2"
  from s have "led_count x2 = led_count handle"
    by (auto simp add: set_color_data_def store_component_def Let_def
          split: if_splits sum.splits led_strip_color_order.splits)
  moreover from lt have "unat i < unat (led_count handle)"
    by (simp add: word_less_nat_alt)
  moreover from lt have "unat (i + 1) = Suc (unat i)"
    by unat_arith
  ultimately show "((i + 1, x2, color), (i, handle, color))
      \<in> measure (\<lambda>(i, handle, color). unat (led_count handle) - unat i)"
    by simp
qed

declare fill_loop.simps [simp del]

section \<open>The strip controller\<close>

text \<open>
  Calls into ESP-IDF: the allocator and the RMT driver. Channels, handles and tick counts
  are natural numbers; \<open>Rmt_write_sample\<close> carries the bytes \<open>handle->pixel_colors\<close>
  points to at the time of the call, the byte count and the \<open>wait_tx_done\<close> flag.
\<close>

datatype ext_call =
    Calloc_led_strip
  | Calloc_pixel_colors nat
  | Rmt_config int nat
  | Rmt_driver_install nat
  | Rmt_translator_init nat
  | Rmt_translator_set_context nat nat
  | Rmt_set_tx_loop_mode nat bool
  | Rmt_set_tx_intr_en nat bool
  | Rmt_driver_uninstall nat
  | Rmt_write_sample nat "u8 list" nat bool
  | Rmt_wait_tx_done nat nat

text \<open>
  The state the driver works on: the allocated \<open>led_strip_t\<close> objects by address (a handle
  is an address, 0 is \<open>NULL\<close>), the static table \<open>rmt_channel_used\<close> (its length is
  \<open>RMT_CHANNEL_MAX\<close>) and the calls made into ESP-IDF so far, oldest first.
\<close>

record world =
  heap :: "nat \<Rightarrow> led_strip option"
  rmt_channel_used :: "bool list"
  ext_log :: "ext_call list"

text \<open>
  What lies outside the repository is a parameter: the value of \<open>APB_CLK_FREQ\<close>, the
  return code the RMT driver gives a call after a given history of calls, and the
  pointer the allocator returns (0 when it fails).
\<close>

record env =
  APB_CLK_FREQ :: nat
  rmt_reply :: "ext_call list \<Rightarrow> ext_call \<Rightarrow> esp_err"
  calloc_reply :: "ext_call list \<Rightarrow> ext_call \<Rightarrow> nat"

definition portMAX_DELAY :: nat where
  "portMAX_DELAY = 2 ^ 32 - 1"

definition RMT_CHANNEL_0 :: nat where
  "RMT_CHANNEL_0 = 0"

definition RMT_CHANNEL_MAX :: "world \<Rightarrow> nat" where
  "RMT_CHANNEL_MAX s = length (rmt_channel_used s)"

definition rmt_call :: "env \<Rightarrow> ext_call \<Rightarrow> world \<Rightarrow> esp_err \<times> world" where
  "rmt_call e c s = (rmt_reply e (ext_log s) c, s\<lparr>ext_log := ext_log s @ [c]\<rparr>)"

definition calloc_call :: "env \<Rightarrow> ext_call \<Rightarrow> world \<Rightarrow> nat \<times> world" where
  "calloc_call e c s = (calloc_reply e (ext_log s) c, s\<lparr>ext_log := ext_log s @ [c]\<rparr>)"

text \<open>Reading through a handle.\<close>

definition deref :: "world \<Rightarrow> nat \<Rightarrow> fault + led_strip" where
  "deref s handle =
     (if handle = 0 then Inl Null_deref
      else case heap s handle of None \<Rightarrow> Inl Dangling | Some strip \<Rightarrow> Inr strip)"

text \<open>The object \<open>heap_caps_calloc\<close> hands out: every field zero.\<close>

definition zero_led_strip :: led_strip where
  "zero_led_strip =
     \<lparr>channel = 0, led_timing = zero_timing, color_order = LED_STRIP_COLOR_ORDER_RGBW,
      pixel_colors = [], led_count = 0, enable_w_channel = False, has_flushed = False\<rparr>"

definition alloc_led_strip :: "env \<Rightarrow> led_strip_config \<Rightarrow> world \<Rightarrow> nat \<times> world" where
  "alloc_led_strip e config s =
     (let (handle, s1) = calloc_call e Calloc_led_strip s in
      if handle = 0 then (0, s1)
      else
        let s2 = s1\<lparr>heap := (heap s1)(handle \<mapsto> zero_led_strip)\<rparr>;
            color_cnt = unat (cfg_led_count config) * CALC_COLOR_SIZE (cfg_enable_w_channel config);
            (pixels, s3) = calloc_call e (Calloc_pixel_colors color_cnt) s2
        in if pixels = 0 then (0, s3\<lparr>heap := (heap s3)(handle := None)\<rparr>)
           else (handle,
                 s3\<lparr>heap := (heap s3)(handle \<mapsto>
                        zero_led_strip\<lparr>pixel_colors := replicate color_cnt 0\<rparr>)\<rparr>))"

definition dealloc_led_strip :: "nat \<Rightarrow> world \<Rightarrow> world" where
  "dealloc_led_strip handle s =
     (if handle \<noteq> 0 then s\<lparr>heap := (heap s)(handle := None)\<rparr> else s)"

text \<open>
  \<open>find_empty_channel(&channel)\<close>: the return code and \<open>*channel\<close> afterwards. The caller
  always passes the address of a local, so the \<open>NULL\<close> branch is not taken.
\<close>

function find_loop :: "nat \<Rightarrow> bool list \<Rightarrow> nat option" where
  "find_loop i used =
     (if i < length used then (if used ! i = False then Some i else find_loop (i + 1) used)
      else None)"
  by pat_completeness auto
termination
  by (relation "measure (\<lambda>(i, used). length used - i)") auto

declare find_loop.simps [simp del]

definition find_empty_channel :: "world \<Rightarrow> nat \<Rightarrow> esp_err \<times> nat" where
  "find_empty_channel s chan =
     (case find_loop 0 (rmt_channel_used s) of
        Some i \<Rightarrow> (ESP_OK, i)
      | None \<Rightarrow> (ESP_ERR_NOT_FOUND, chan))"

definition mark_channel :: "bool \<Rightarrow> nat \<Rightarrow> world \<Rightarrow> fault + world" where
  "mark_channel v chan s =
     (if chan \<noteq> RMT_CHANNEL_MAX s then
        (if chan < length (rmt_channel_used s)
         then Inr (s\<lparr>rmt_channel_used := (rmt_channel_used s)[chan := v]\<rparr>)
         else Inl Out_of_bounds)
      else Inr s)"

definition mark_channel_free :: "nat \<Rightarrow> world \<Rightarrow> fault + world" where
  "mark_channel_free chan s = mark_channel False chan s"

definition mark_channel_used :: "nat \<Rightarrow> world \<Rightarrow> fault + world" where
  "mark_channel_used chan s = mark_channel True chan s"

text \<open>
  The driver set-up of \<open>led_strip_install\<close> is a run of calls, each followed by
  \<open>if (err != ESP_OK) { dealloc_led_strip(handle); mark_channel_free(channel); return err; }\<close>.
  \<open>rmt_setup\<close> makes the calls in order and stops at the first that fails.
\<close>

fun rmt_setup :: "env \<Rightarrow> ext_call list \<Rightarrow> world \<Rightarrow> esp_err \<times> world" where
  "rmt_setup e [] s = (ESP_OK, s)"
| "rmt_setup e (c # cs) s =
     (let (err, s1) = rmt_call e c s in
      if err \<noteq> ESP_OK then (err, s1) else rmt_setup e cs s1)"

text \<open>
  \<open>led_strip_install(new_handle, config)\<close>. \<open>new_handle\<close> is \<open>None\<close> for a \<open>NULL\<close>
  pointer and \<open>Some v\<close> for a pointer to a handle variable holding \<open>v\<close>; the result
  carries that variable afterwards. The field \<open>handle->channel\<close> is never assigned and
  keeps the zero \<open>calloc\<close> gave it.
\<close>

definition led_strip_install ::
  "env \<Rightarrow> nat option \<Rightarrow> led_strip_config option \<Rightarrow> world \<Rightarrow> fault + (esp_err \<times> nat option \<times> world)"
where
  "led_strip_install e new_handle config s =
     (case (new_handle, config) of
        (None, _) \<Rightarrow> Inr (ESP_ERR_INVALID_ARG, new_handle, s)
      | (_, None) \<Rightarrow> Inr (ESP_ERR_INVALID_ARG, new_handle, s)
      | (Some _, Some cfg) \<Rightarrow>
          if cfg_led_count cfg = 2 then Inr (ESP_ERR_NOT_SUPPORTED, new_handle, s)
          else
            let (handle, s1) = alloc_led_strip e cfg s in
            if handle = 0 then Inr (ESP_ERR_NO_MEM, new_handle, s1)
            else
              (case deref s1 handle of
                 Inl f \<Rightarrow> Inl f
               | Inr strip \<Rightarrow>
                   let s2 = s1\<lparr>heap := (heap s1)(handle \<mapsto>
                              strip\<lparr>led_timing := map_timing (APB_CLK_FREQ e) (timing_config cfg),
                                    enable_w_channel := cfg_enable_w_channel cfg,
                                    color_order := cfg_color_order cfg,
                                    led_count := cfg_led_count cfg,
                                    has_flushed := False\<rparr>)\<rparr>;
                       (err, chan) = find_empty_channel s2 (RMT_CHANNEL_MAX s2)
                   in if err \<noteq> ESP_OK then Inr (err, Some handle, dealloc_led_strip handle s2)
                      else
                        (case mark_channel_used chan s2 of
                           Inl f \<Rightarrow> Inl f
                         | Inr s3 \<Rightarrow>
                             let (err, s4) =
                                   rmt_setup e
                                     [Rmt_config (gpio_output_num cfg) chan,
                                      Rmt_driver_install chan,
                                      Rmt_translator_init chan,
                                      Rmt_translator_set_context chan handle,
                                      Rmt_set_tx_loop_mode chan False,
                                      Rmt_set_tx_intr_en RMT_CHANNEL_0 False] s3
                             in if err \<noteq> ESP_OK then
                                  (case mark_channel_free chan (dealloc_led_strip handle s4) of
                                     Inl f \<Rightarrow> Inl f
                                   | Inr s5 \<Rightarrow> Inr (err, Some handle, s5))
                                else Inr (ESP_OK, Some handle, s4))))"

definition led_strip_free :: "env \<Rightarrow> nat \<Rightarrow> world \<Rightarrow> fault + (esp_err \<times> world)" where
  "led_strip_free e handle s =
     (case deref s handle of
        Inl f \<Rightarrow> Inl f
      | Inr strip \<Rightarrow>
          let (err, s1) = rmt_call e (Rmt_driver_uninstall (channel strip)) s in
          if err \<noteq> ESP_OK then Inr (err, s1)
          else
            (case mark_channel_free (channel strip) s1 of
               Inl f \<Rightarrow> Inl f
             | Inr s2 \<Rightarrow> Inr (ESP_OK, dealloc_led_strip handle s2)))"

text \<open>
  \<open>led_strip_flush_done(handle, done)\<close>. \<open>done\<close> is \<open>None\<close> for a \<open>NULL\<close> pointer and
  \<open>Some v\<close> for a pointer to a \<open>bool\<close> holding \<open>v\<close>; the result carries that \<open>bool\<close>
  afterwards.
\<close>

definition led_strip_flush_done ::
  "env \<Rightarrow> nat \<Rightarrow> bool option \<Rightarrow> world \<Rightarrow> fault + (esp_err \<times> bool option \<times> world)"
where
  "led_strip_flush_done e handle done s =
     (if handle = 0 \<or> done = None then Inr (ESP_ERR_INVALID_ARG, done, s)
      else
        (case deref s handle of
           Inl f \<Rightarrow> Inl f
         | Inr strip \<Rightarrow>
             if has_flushed strip = False then Inr (ESP_OK, Some True, s)
             else
               let (err, s1) = rmt_call e (Rmt_wait_tx_done (channel strip) 0) s;
                   done' = Some (err = ESP_OK)
               in if err \<noteq> ESP_OK \<and> err \<noteq> ESP_ERR_TIMEOUT then Inr (err, done', s1)
                  else Inr (ESP_OK, done', s1)))"

text \<open>
  The common tail of \<open>led_strip_flush\<close> and \<open>led_strip_start_flush\<close>, which differ in the
  \<open>wait_tx_done\<close> argument of \<open>rmt_write_sample\<close> only: poll, refuse while a
  transmission is running, hand the buffer to the driver, set \<open>has_flushed\<close>.
\<close>

definition flush_with :: "bool \<Rightarrow> env \<Rightarrow> nat \<Rightarrow> world \<Rightarrow> fault + (esp_err \<times> world)" where
  "flush_with wait_tx_done e handle s =
     (case led_strip_flush_done e handle (Some False) s of
        Inl f \<Rightarrow> Inl f
      | Inr (err, ready, s1) \<Rightarrow>
          if err \<noteq> ESP_OK then Inr (err, s1)
          else if ready = Some False then Inr (ESP_ERR_NOT_FINISHED, s1)
          else
            (case deref s1 handle of
               Inl f \<Rightarrow> Inl f
             | Inr strip \<Rightarrow>
                 let data_count = unat (led_count strip) * CALC_COLOR_SIZE (enable_w_channel strip);
                     (err, s2) = rmt_call e (Rmt_write_sample (channel strip) (pixel_colors strip)
                                               data_count wait_tx_done) s1
                 in if err \<noteq> ESP_OK then Inr (err, s2)
                    else Inr (ESP_OK,
                              s2\<lparr>heap := (heap s2)(handle \<mapsto> strip\<lparr>has_flushed := True\<rparr>)\<rparr>)))"

definition led_strip_flush :: "env \<Rightarrow> nat \<Rightarrow> world \<Rightarrow> fault + (esp_err \<times> world)" where
  "led_strip_flush e handle s = flush_with True e handle s"

definition led_strip_start_flush :: "env \<Rightarrow> nat \<Rightarrow> world \<Rightarrow> fault + (esp_err \<times> world)" where
  "led_strip_start_flush e handle s =
     (if handle = 0 then Inr (ESP_ERR_INVALID_ARG, s) else flush_with False e handle s)"

definition led_strip_wait_for_flush_finish ::
  "env \<Rightarrow> nat \<Rightarrow> world \<Rightarrow> fault + (esp_err \<times> world)"
where
  "led_strip_wait_for_flush_finish e handle s =
     (case deref s handle of
        Inl f \<Rightarrow> Inl f
      | Inr strip \<Rightarrow>
          let (err, s1) = rmt_call e (Rmt_wait_tx_done (channel strip) portMAX_DELAY) s in
          if err \<noteq> ESP_OK then Inr (err, s1) else Inr (ESP_OK, s1))"

text \<open>Writing a changed object back through the handle.\<close>

definition store_strip :: "nat \<Rightarrow> world \<Rightarrow> fault + led_strip \<Rightarrow> fault + (esp_err \<times> world)" where
  "store_strip handle s res =
     (case res of
        Inl f \<Rightarrow> Inl f
      | Inr strip \<Rightarrow> Inr (ESP_OK, s\<lparr>heap := (heap s)(handle \<mapsto> strip)\<rparr>))"

definition led_strip_set_pixel_rgb ::
  "nat \<Rightarrow> u16 \<Rightarrow> u8 \<Rightarrow> u8 \<Rightarrow> u8 \<Rightarrow> world \<Rightarrow> fault + (esp_err \<times> world)"
where
  "led_strip_set_pixel_rgb handle index cr cg cb s =
     (if handle = 0 then Inr (ESP_ERR_INVALID_ARG, s)
      else
        (case deref s handle of
           Inl f \<Rightarrow> Inl f
         | Inr strip \<Rightarrow>
             if index \<ge> led_count strip then Inr (ESP_ERR_INVALID_SIZE, s)
             else
               let color = \<lparr>r = cr, g = cg, b = cb, w = 0x00\<rparr>;
                   color = (if enable_w_channel strip then convert_from_rgb_to_rgbw color else color)
               in store_strip handle s (set_color_data strip index color)))"

definition led_strip_set_pixel_rgbw ::
  "nat \<Rightarrow> u16 \<Rightarrow> u8 \<Rightarrow> u8 \<Rightarrow> u8 \<Rightarrow> u8 \<Rightarrow> world \<Rightarrow> fault + (esp_err \<times> world)"
where
  "led_strip_set_pixel_rgbw handle index cr cg cb cw s =
     (if handle = 0 then Inr (ESP_ERR_INVALID_ARG, s)
      else
        (case deref s handle of
           Inl f \<Rightarrow> Inl f
         | Inr strip \<Rightarrow>
             if index \<ge> led_count strip then Inr (ESP_ERR_INVALID_SIZE, s)
             else
               let color = \<lparr>r = cr, g = cg, b = cb, w = cw\<rparr>;
                   color = (if enable_w_channel strip = False then convert_from_rgbw_to_rgb color
                            else color)
               in store_strip handle s (set_color_data strip index color)))"

definition led_strip_fill_rgb ::
  "nat \<Rightarrow> u8 \<Rightarrow> u8 \<Rightarrow> u8 \<Rightarrow> world \<Rightarrow> fault + (esp_err \<times> world)"
where
  "led_strip_fill_rgb handle cr cg cb s =
     (if handle = 0 then Inr (ESP_ERR_INVALID_ARG, s)
      else
        (case deref s handle of
           Inl f \<Rightarrow> Inl f
         | Inr strip \<Rightarrow>
             let color = \<lparr>r = cr, g = cg, b = cb, w = 0x00\<rparr>;
                 color = (if enable_w_channel strip then convert_from_rgb_to_rgbw color else color)
             in store_strip handle s (fill_loop 0 strip color)))"

definition led_strip_fill_rgbw ::
  "nat \<Rightarrow> u8 \<Rightarrow> u8 \<Rightarrow> u8 \<Rightarrow> u8 \<Rightarrow> world \<Rightarrow> fault + (esp_err \<times> world)"
where
  "led_strip_fill_rgbw handle cr cg cb cw s =
     (if handle = 0 then Inr (ESP_ERR_INVALID_ARG, s)
      else
        (case deref s handle of
           Inl f \<Rightarrow> Inl f
         | Inr strip \<Rightarrow>
             let color = \<lparr>r = cr, g = cg, b = cb, w = cw\<rparr>;
                 color = (if enable_w_channel strip = False then convert_from_rgbw_to_rgb color
                          else color)
             in store_strip handle s (fill_loop 0 strip color)))"

section \<open>Reference values for the statements\<close>

text \<open>
  The symbol the specification assigns to bit \<open>i\<close> of a byte, counted from the most
  significant bit: an active phase followed by an inactive one, with the durations
  \<open>(high_on, high_off)\<close> for a 1 bit and \<open>(low_on, low_off)\<close> for a 0 bit.
\<close>

definition spec_symbol :: "u8 \<Rightarrow> led_strip_manual_timing \<Rightarrow> nat \<Rightarrow> rmt_item32" where
  "spec_symbol data timing i =
     (if bit data (7 - i)
      then \<lparr>duration0 = high_on timing, level0 = 1, duration1 = high_off timing, level1 = 0\<rparr>
      else \<lparr>duration0 = low_on timing, level0 = 1, duration1 = low_off timing, level1 = 0\<rparr>)"

text \<open>Concrete inputs: the SK6822 table at a 100 ns tick, symbols, strips and worlds.\<close>

definition sk6822_100ns :: led_strip_manual_timing where
  "sk6822_100ns = \<lparr>low_on = 3, low_off = 9, high_on = 6, high_off = 6, reset_time = 800\<rparr>"

definition blank_item :: rmt_item32 where
  "blank_item = \<lparr>duration0 = 0, level0 = 0, duration1 = 0, level1 = 0\<rparr>"

definition high_item :: rmt_item32 where
  "high_item = \<lparr>duration0 = high_on sk6822_100ns, level0 = 1,
                 duration1 = high_off sk6822_100ns, level1 = 0\<rparr>"

definition low_item :: rmt_item32 where
  "low_item = \<lparr>duration0 = low_on sk6822_100ns, level0 = 1,
                duration1 = low_off sk6822_100ns, level1 = 0\<rparr>"

definition rgb5 :: led_strip where
  "rgb5 = \<lparr>channel = 0, led_timing = sk6822_100ns, color_order = LED_STRIP_COLOR_ORDER_RGBW,
           pixel_colors = replicate 15 0, led_count = 5, enable_w_channel = False,
           has_flushed = False\<rparr>"

definition grbw3 :: led_strip where
  "grbw3 = \<lparr>channel = 0, led_timing = sk6822_100ns, color_order = LED_STRIP_COLOR_ORDER_GRBW,
            pixel_colors = replicate 12 0, led_count = 3, enable_w_channel = True,
            has_flushed = False\<rparr>"

definition world5 :: world where
  "world5 = \<lparr>heap = Map.empty(1 \<mapsto> rgb5), rmt_channel_used = [True, False], ext_log = []\<rparr>"




definition world5_flushing :: world where
  "world5_flushing =
     \<lparr>heap = Map.empty(1 \<mapsto> rgb5\<lparr>has_flushed := True\<rparr>), rmt_channel_used = [True, False],
      ext_log = [Rmt_write_sample 0 (replicate 15 0) 15 False]\<rparr>"

text \<open>A driver whose transmissions never finish, and an allocator that returns address 1.\<close>

definition busy_env :: env where
  "busy_env =
     \<lparr>APB_CLK_FREQ = 80000000,
      rmt_reply = (\<lambda>log c. case c of Rmt_wait_tx_done _ _ \<Rightarrow> ESP_ERR_TIMEOUT | _ \<Rightarrow> ESP_OK),
      calloc_reply = (\<lambda>log c. 1)\<rparr>"

definition sk_cfg :: led_strip_timing_config where
  "sk_cfg = \<lparr>timing_type = LED_STRIP_TYPE_SK6822, timing_manual = zero_timing,
             use_manual_timing = False\<rparr>"

definition two_led_cfg :: led_strip_config where
  "two_led_cfg = \<lparr>timing_config = sk_cfg, cfg_color_order = LED_STRIP_COLOR_ORDER_RGBW,
                  gpio_output_num = 5, cfg_led_count = 2, cfg_enable_w_channel = False\<rparr>"

definition fresh_world :: world where
  "fresh_world =
     \<lparr>heap = Map.empty,
      rmt_channel_used = [False, False, False, False, False, False, False, False],
      ext_log = []\<rparr>"

section \<open>The translator: one byte\<close>

lemma BIT_SET_bit: "n < 8 \<Longrightarrow> BIT_SET (ucast (data :: u8)) n = bit data n"
proof -
  assume n: "n < 8"
  have "(ucast data :: 32 word) AND push_bit n 1 = push_bit n 1 \<longleftrightarrow> bit (ucast data :: 32 word) n"
    apply (rule iffI)
    subgoal
      apply (drule arg_cong[where f="\<lambda>x. bit x n"])
      using n by (simp add: bit_simps)
    subgoal
      apply (rule bit_eqI)
      using n by (auto simp add: bit_simps)
    done
  also have "\<dots> = bit data n" using n by (simp add: bit_simps)
  finally show ?thesis by (simp add: BIT_SET_def)
qed

lemma translate_loop_spec:
  "i \<le> 8 \<Longrightarrow> base + 8 \<le> length items \<Longrightarrow>
   \<exists>items'. translate_loop i items base data timing = Inr items' \<and>
     length items' = length items \<and>
     (\<forall>k < length items. items' ! k =
        (if base + i \<le> k \<and> k < base + 8 then spec_symbol data timing (k - base) else items ! k))"
proof (induction i items base data timing rule: translate_loop.induct)
  case (1 i items base data timing)
  show ?case
  proof (cases "i < 8")
    case False
    with "1.prems" have "i = 8" by simp
    then show ?thesis by (auto simp add: translate_loop.simps)
  next
    case True
    then have inb: "base + i < length items" using "1.prems" by simp
    define it where "it = (if BIT_SET (ucast data) (7 - i)
                     then (items ! (base + i))\<lparr>duration0 := high_on timing, duration1 := high_off timing\<rparr>
                     else (items ! (base + i))\<lparr>duration0 := low_on timing, duration1 := low_off timing\<rparr>)\<lparr>level0 := 1, level1 := 0\<rparr>"
    have it_sym: "it = spec_symbol data timing i"
      using True by (cases "items ! (base + i)") (simp add: it_def spec_symbol_def BIT_SET_bit)
    have step: "translate_loop i items base data timing =
      translate_loop (i + 1) (items[base + i := it]) base data timing"
      using True inb by (subst translate_loop.simps) (simp add: it_def Let_def)
    have "\<exists>items'. translate_loop (i + 1) (items[base + i := it]) base data timing = Inr items' \<and>
     length items' = length (items[base + i := it]) \<and>
     (\<forall>k < length (items[base + i := it]). items' ! k =
        (if base + (i + 1) \<le> k \<and> k < base + 8 then spec_symbol data timing (k - base) else (items[base + i := it]) ! k))"
      using True inb "1.prems"
      by (intro "1.IH"[OF True inb refl refl refl]) (simp_all add: it_def)
    then obtain items' where r: "translate_loop (i + 1) (items[base + i := it]) base data timing = Inr items'"
      and l: "length items' = length items"
      and c: "\<forall>k < length items. items' ! k =
        (if base + (i + 1) \<le> k \<and> k < base + 8 then spec_symbol data timing (k - base) else (items[base + i := it]) ! k)"
      by auto
    have "\<forall>k < length items. items' ! k =
        (if base + i \<le> k \<and> k < base + 8 then spec_symbol data timing (k - base) else items ! k)"
    proof (intro allI impI)
      fix k assume k: "k < length items"
      show "items' ! k = (if base + i \<le> k \<and> k < base + 8 then spec_symbol data timing (k - base) else items ! k)"
      proof (cases "k = base + i")
        case True
        then show ?thesis using c k \<open>i < 8\<close> it_sym by simp
      next
        case False
        then show ?thesis using c k by auto
      qed
    qed
    with r l step show ?thesis by simp
  qed
qed

lemma translate_spec:
  assumes "base + 8 \<le> length items"
  shows "\<exists>items'. translate_uint8_to_rmt_samples items base data timing = Inr items' \<and>
     length items' = length items \<and>
     (\<forall>k < length items. items' ! k =
        (if base \<le> k \<and> k < base + 8 then spec_symbol data timing (k - base) else items ! k))"
  using translate_loop_spec[of 0 base items data timing] assms
  by (simp add: translate_uint8_to_rmt_samples_def)

lemma translate_list:
  assumes "base + 8 \<le> length items"
  shows "translate_uint8_to_rmt_samples items base data timing =
           Inr (take base items @ map (spec_symbol data timing) [0..<8] @ drop (base + 8) items)"
proof -
  obtain items' where r: "translate_uint8_to_rmt_samples items base data timing = Inr items'"
    and l: "length items' = length items"
    and c: "\<forall>k < length items. items' ! k =
        (if base \<le> k \<and> k < base + 8 then spec_symbol data timing (k - base) else items ! k)"
    using translate_spec[OF assms] by blast
  have "items' = take base items @ map (spec_symbol data timing) [0..<8] @ drop (base + 8) items"
  proof (rule nth_equalityI)
    show "length items' = length (take base items @ map (spec_symbol data timing) [0..<8] @ drop (base + 8) items)"
      using l assms by simp
  next
    fix k assume "k < length items'"
    then have k: "k < length items" using l by simp
    show "items' ! k = (take base items @ map (spec_symbol data timing) [0..<8] @ drop (base + 8) items) ! k"
    proof (cases "k < base")
      case True
      then show ?thesis using c k assms by (simp add: nth_append)
    next
      case False
      note nb = this
      show ?thesis
      proof (cases "k < base + 8")
        case True
        then have "k - base < 8" using nb by simp
        then have "map (spec_symbol data timing) [0..<8] ! (k - base) = spec_symbol data timing (k - base)"
          by (metis add.left_neutral diff_zero length_upt nth_map nth_upt)
        then show ?thesis using c k assms nb True by (simp add: nth_append min_def)
      next
        case False
        then have "base + 8 + (k - base - 8) = k" by simp
        then show ?thesis using c k assms nb False by (simp add: nth_append min_def)
      qed
    qed
  qed
  with r show ?thesis by simp
qed

lemma upt8: "[0..<8] = [0, 1, 2, 3, 4, 5, 6, 7]"
  by (simp add: upt_rec)

text \<open>
  C2. For every input byte and every timing table the translator writes exactly eight
  symbols, the one for the most significant bit first: each has the active level first and
  the inactive level second, with the durations \<open>(high_on, high_off)\<close> where the bit is 1
  and \<open>(low_on, low_off)\<close> where it is 0. The eight slots from \<open>base\<close> on are
  overwritten and every other element of the array is left as it was.
\<close>

theorem translate_msb_first:
  assumes "base + 8 \<le> length items"
  shows "translate_uint8_to_rmt_samples items base data timing =
           Inr (take base items @
                map (\<lambda>i. if bit data (7 - i)
                          then \<lparr>duration0 = high_on timing, level0 = 1,
                                duration1 = high_off timing, level1 = 0\<rparr>
                          else \<lparr>duration0 = low_on timing, level0 = 1,
                                duration1 = low_off timing, level1 = 0\<rparr>) [0..<8] @
                drop (base + 8) items)"
proof -
  have "spec_symbol data timing =
          (\<lambda>i. if bit data (7 - i)
                then \<lparr>duration0 = high_on timing, level0 = 1,
                      duration1 = high_off timing, level1 = 0\<rparr>
                else \<lparr>duration0 = low_on timing, level0 = 1,
                      duration1 = low_off timing, level1 = 0\<rparr>)"
    by (rule ext) (simp add: spec_symbol_def)
  then show ?thesis
    using translate_list[OF assms, of data timing] by simp
qed

theorem translate_msb_first_witness:
  "translate_uint8_to_rmt_samples (replicate 10 blank_item) 1 0xA5 sk6822_100ns =
     Inr [blank_item, high_item, low_item, high_item, low_item,
          low_item, high_item, low_item, high_item, blank_item]"
  using translate_msb_first[of 1 "replicate 10 blank_item" "0xA5" sk6822_100ns]
  by (simp add: upt8 high_item_def low_item_def numeral_eq_Suc)

text \<open>
  C3, as the specification has it: the byte \<open>0b10110000\<close> is encoded as
  \<open>[high, high, low, high, high, low, low, low]\<close>. The code does not produce that
  sequence: the bits of \<open>0xB0\<close> from the most significant one are 1, 0, 1, 1, 0, 0, 0, 0.
\<close>

theorem bit_order_example_counterexample:
  "translate_uint8_to_rmt_samples (replicate 8 blank_item) 0 0xB0 sk6822_100ns \<noteq>
     Inr [high_item, high_item, low_item, high_item, high_item, low_item, low_item, low_item]"
  using translate_list[of 0 "replicate 8 blank_item" "0xB0" sk6822_100ns]
  by (simp add: upt8 spec_symbol_def high_item_def low_item_def sk6822_100ns_def)

text \<open>
  C3, amended: the byte \<open>0b10110000\<close> is encoded, most significant bit first, as
  \<open>[high, low, high, high, low, low, low, low]\<close>, where \<open>high\<close> is the symbol with the
  durations \<open>(high_on, high_off)\<close> and \<open>low\<close> the one with \<open>(low_on, low_off)\<close> of the
  timing table in use.
\<close>

theorem bit_order_example:
  assumes "length items = 8"
  shows "translate_uint8_to_rmt_samples items 0 0xB0 timing =
           (let high = \<lparr>duration0 = high_on timing, level0 = 1,
                        duration1 = high_off timing, level1 = 0\<rparr>;
                low = \<lparr>duration0 = low_on timing, level0 = 1,
                       duration1 = low_off timing, level1 = 0\<rparr>
            in Inr [high, low, high, high, low, low, low, low])"
  using assms translate_list[of 0 items "0xB0" timing]
  by (simp add: upt8 spec_symbol_def Let_def)

theorem bit_order_example_witness:
  "translate_uint8_to_rmt_samples (replicate 8 blank_item) 0 0xB0 sk6822_100ns =
     Inr [high_item, low_item, high_item, high_item, low_item, low_item, low_item, low_item]"
  using bit_order_example[of "replicate 8 blank_item" sk6822_100ns]
  by (simp add: high_item_def low_item_def Let_def)

section \<open>The translator: a run of bytes\<close>

lemma adapter_loop_spec:
  "hnd = Some handle \<Longrightarrow> unat cb \<le> length raw \<Longrightarrow> i \<le> cb \<Longrightarrow> unat off = 8 * unat i \<Longrightarrow>
   8 * unat cb \<le> length dest \<Longrightarrow> 8 * unat cb < 2 ^ 32 \<Longrightarrow>
   \<exists>dest' off'. adapter_loop i cb off raw hnd dest = Inr (dest', off') \<and>
     unat off' = 8 * unat cb \<and> length dest' = length dest \<and>
     (\<forall>k < length dest. dest' ! k =
        (if 8 * unat i \<le> k \<and> k < 8 * unat cb
         then spec_symbol (raw ! (k div 8)) (led_timing handle) (k mod 8) else dest ! k))"
proof (induction i cb off raw hnd dest rule: adapter_loop.induct)
  case (1 i cb off raw hnd dest)
  show ?case
  proof (cases "i < cb")
    case False
    with "1.prems" have "i = cb" by simp
    then show ?thesis using "1.prems" by (auto simp add: adapter_loop.simps)
  next
    case True
    then have ilt: "unat i < unat cb" by (simp add: word_less_nat_alt)
    from True have suc: "unat (i + 1) = Suc (unat i)" by unat_arith
    have inb: "unat i < length raw" using ilt "1.prems" by simp
    have room: "unat off + 8 \<le> length dest" using ilt "1.prems" by simp
    obtain d1 where t: "translate_uint8_to_rmt_samples dest (unat off) (raw ! unat i) (led_timing handle) = Inr d1"
      and l1: "length d1 = length dest"
      and c1: "\<forall>k < length dest. d1 ! k =
        (if unat off \<le> k \<and> k < unat off + 8 then spec_symbol (raw ! unat i) (led_timing handle) (k - unat off) else dest ! k)"
      using translate_spec[OF room, of "raw ! unat i" "led_timing handle"] by blast
    have off8: "unat (off + 8) = 8 * unat (i + 1)"
    proof -
      have "unat off + 8 < 2 ^ 32" using ilt "1.prems" by simp
      then have "unat (off + 8) = unat off + 8"
        by (simp add: unat_word_ariths)
      then show ?thesis using "1.prems" suc by simp
    qed
    have le': "i + 1 \<le> cb" using True by unat_arith
    have step: "adapter_loop i cb off raw hnd dest = adapter_loop (i + 1) cb (off + 8) raw hnd d1"
      using True inb t "1.prems"(1) by (subst adapter_loop.simps) simp
    obtain dest' off' where r: "adapter_loop (i + 1) cb (off + 8) raw hnd d1 = Inr (dest', off')"
      and o: "unat off' = 8 * unat cb" and l: "length dest' = length d1"
      and c: "\<forall>k < length d1. dest' ! k =
        (if 8 * unat (i + 1) \<le> k \<and> k < 8 * unat cb
         then spec_symbol (raw ! (k div 8)) (led_timing handle) (k mod 8) else d1 ! k)"
      using "1.IH"[OF True "1.prems"(1) inb t "1.prems"(1) "1.prems"(2) le' off8] "1.prems" l1
      by auto
    have "\<forall>k < length dest. dest' ! k =
        (if 8 * unat i \<le> k \<and> k < 8 * unat cb
         then spec_symbol (raw ! (k div 8)) (led_timing handle) (k mod 8) else dest ! k)"
    proof (intro allI impI)
      fix k assume k: "k < length dest"
      show "dest' ! k = (if 8 * unat i \<le> k \<and> k < 8 * unat cb
         then spec_symbol (raw ! (k div 8)) (led_timing handle) (k mod 8) else dest ! k)"
      proof (cases "8 * unat i \<le> k \<and> k < 8 * unat i + 8")
        case True
        then have "k div 8 = unat i" by arith
        moreover from True have "k mod 8 = k - 8 * unat i" by arith
        ultimately show ?thesis using True c c1 k l1 suc "1.prems"(4) ilt by simp
      next
        case False
        then show ?thesis using c c1 k l1 suc "1.prems"(4) by auto
      qed
    qed
    with r o l l1 step show ?thesis by simp
  qed
qed

text \<open>
  C1. With the translator bound to a strip (the driver hands back the context it was
  given), a source buffer of \<open>n = src_size\<close> bytes and room for the \<open>c = wanted_num\<close>
  requested symbols, one invocation consumes exactly \<open>min (c div 8) n\<close> bytes and
  produces exactly eight symbols for each of them, and reports both counts; with
  \<open>c < 8\<close> both counts are 0. The symbols produced are those of the consumed bytes, in
  order, and the output array is unchanged past them.
\<close>

theorem rmt_adapter_byte_count:
  assumes ok: "fst get_context = ESP_OK"
      and nn: "snd get_context \<noteq> 0"
      and hp: "hp (snd get_context) = Some handle"
      and src: "unat src_size \<le> length src"
      and cap: "unat wanted_num \<le> length dest"
  shows "\<exists>dest' translated_size item_num.
           rmt_adapter get_context hp src dest src_size wanted_num =
             Inr (dest', translated_size, item_num) \<and>
           unat translated_size = min (unat wanted_num div 8) (unat src_size) \<and>
           unat item_num = 8 * unat translated_size \<and>
           (wanted_num < 8 \<longrightarrow> translated_size = 0 \<and> item_num = 0) \<and>
           length dest' = length dest \<and>
           (\<forall>k < length dest. dest' ! k =
              (if k < unat item_num
               then spec_symbol (src ! (k div 8)) (led_timing handle) (k mod 8)
               else dest ! k))"
proof (cases "wanted_num < 8")
  case True
  then have "unat wanted_num < 8" by (simp add: word_less_nat_alt)
  then have "unat wanted_num div 8 = 0" by simp
  with True ok nn show ?thesis by (simp add: rmt_adapter_def)
next
  case False
  define cb where "cb = (if wanted_num div 8 > src_size then src_size else wanted_num div 8)"
  have d8: "unat (wanted_num div 8) = unat wanted_num div 8"
    by (simp add: unat_div)
  have cbv: "unat cb = min (unat wanted_num div 8) (unat src_size)"
    using d8 by (auto simp add: cb_def word_less_nat_alt min_def)
  have b1: "unat cb \<le> length src" using cbv src by simp
  have "8 * unat cb \<le> unat wanted_num" using cbv by (simp add: min_def) arith
  then have b2: "8 * unat cb \<le> length dest" and b3: "8 * unat cb < 2 ^ 32"
    using cap unsigned_less[of wanted_num, where 'a=nat] by simp_all
  obtain dest' off' where run: "adapter_loop 0 cb 0 src (hp (snd get_context)) dest = Inr (dest', off')"
    and o: "unat off' = 8 * unat cb" and l: "length dest' = length dest"
    and c: "\<forall>k < length dest. dest' ! k =
        (if 8 * unat (0::size_t) \<le> k \<and> k < 8 * unat cb
         then spec_symbol (src ! (k div 8)) (led_timing handle) (k mod 8) else dest ! k)"
    using adapter_loop_spec[OF hp b1 _ _ b2 b3, of 0 0] by auto
  have "rmt_adapter get_context hp src dest src_size wanted_num = Inr (dest', cb, off')"
    using False ok nn run by (simp add: rmt_adapter_def cb_def Let_def)
  then show ?thesis using False cbv o l c by simp
qed

theorem rmt_adapter_byte_count_witness:
  "\<exists>dest'. rmt_adapter (ESP_OK, 1) (Map.empty(1 \<mapsto> rgb5)) [0xA5, 0xFF, 0x00]
              (replicate 20 blank_item) 3 20 = Inr (dest', 2, 16)"
  using rmt_adapter_byte_count[of "(ESP_OK, 1)" "Map.empty(1 \<mapsto> rgb5)" rgb5 3
          "[0xA5, 0xFF, 0x00]" 20 "replicate 20 blank_item"]
  apply simp
  apply (elim exE conjE)
  apply (simp add: word_unat_eq_iff)
  done

section \<open>The pixel buffer\<close>

lemma splice4:
  assumes len: "n + 4 \<le> length pc" and l: "length xs = length pc"
    and c: "\<And>k. k < length pc \<Longrightarrow> xs ! k =
              (if k = n then c0 else if k = n + 1 then c1 else if k = n + 2 then c2
               else if k = n + 3 then c3 else pc ! k)"
  shows "xs = take n pc @ [c0, c1, c2, c3] @ drop (n + 4) pc"
proof (rule nth_equalityI)
  show "length xs = length (take n pc @ [c0, c1, c2, c3] @ drop (n + 4) pc)"
    using len l by simp
next
  fix k assume "k < length xs"
  then have k: "k < length pc" using l by simp
  consider "k < n" | "k = n" | "k = n + 1" | "k = n + 2" | "k = n + 3" | "n + 4 \<le> k" by linarith
  then show "xs ! k = (take n pc @ [c0, c1, c2, c3] @ drop (n + 4) pc) ! k"
  proof cases
    case 6
    then have "n + 4 + (k - n - 4) = k" by simp
    with 6 show ?thesis using k len c[OF k] by (simp add: nth_append)
  qed (use k len c[OF k] in \<open>simp_all add: nth_append\<close>)
qed

lemma set_color_data_rgbw4:
  assumes "enable_w_channel strip" "4 * unat index + 4 \<le> length (pixel_colors strip)"
    and "color_order strip = LED_STRIP_COLOR_ORDER_RGBW"
  shows "set_color_data strip index color =
       Inr (strip\<lparr>pixel_colors := take (4 * unat index) (pixel_colors strip) @
               [r color, b color, g color, w color] @
               drop (4 * unat index + 4) (pixel_colors strip)\<rparr>)"
proof -
  define pc where "pc = pixel_colors strip"
  define n where "n = 4 * unat index"
  have len: "n + 4 \<le> length pc" using assms by (simp add: pc_def n_def)
  have upd: "pc[n + 3 := w color, n := r color, n + 2 := g color, n + 1 := b color] =
      take n pc @ [r color, b color, g color, w color] @ drop (n + 4) pc"
    using len by (intro splice4) (simp_all add: nth_list_update)
  show ?thesis
    using assms len upd
    by (simp add: set_color_data_def store_component_def CALC_COLOR_SIZE_def Let_def pc_def n_def)
qed

lemma set_color_data_grbw4:
  assumes "enable_w_channel strip" "4 * unat index + 4 \<le> length (pixel_colors strip)"
    and "color_order strip = LED_STRIP_COLOR_ORDER_GRBW"
  shows "set_color_data strip index color =
       Inr (strip\<lparr>pixel_colors := take (4 * unat index) (pixel_colors strip) @
               [g color, b color, r color, w color] @
               drop (4 * unat index + 4) (pixel_colors strip)\<rparr>)"
proof -
  define pc where "pc = pixel_colors strip"
  define n where "n = 4 * unat index"
  have len: "n + 4 \<le> length pc" using assms by (simp add: pc_def n_def)
  have upd: "pc[n + 3 := w color, n + 2 := r color, n := g color, n + 1 := b color] =
      take n pc @ [g color, b color, r color, w color] @ drop (n + 4) pc"
    using len by (intro splice4) (simp_all add: nth_list_update)
  show ?thesis
    using assms len upd
    by (simp add: set_color_data_def store_component_def CALC_COLOR_SIZE_def Let_def pc_def n_def)
qed

text \<open>
  C4, as the specification has it: under the GRBW layout the offsets of \<open>r\<close> and \<open>b\<close> are
  exchanged relative to RGBW, which would put the bytes \<open>[b, r, g, w]\<close> into the pixel's
  group. The code keeps \<open>b\<close> where it is and exchanges \<open>r\<close> and \<open>g\<close>: writing
  \<open>(1, 2, 3, 4)\<close> at pixel 1 stores \<open>[2, 3, 1, 4]\<close>, not \<open>[3, 1, 2, 4]\<close>.
\<close>

theorem grbw_layout_counterexample:
  "set_color_data grbw3 1 \<lparr>r = 1, g = 2, b = 3, w = 4\<rparr> \<noteq>
     Inr (grbw3\<lparr>pixel_colors := [0, 0, 0, 0, 3, 1, 2, 4, 0, 0, 0, 0]\<rparr>)"
  using set_color_data_grbw4[of grbw3 1 "\<lparr>r = 1, g = 2, b = 3, w = 4\<rparr>"]
  by (simp add: grbw3_def numeral_eq_Suc)

text \<open>
  C4, amended: on a strip with four bytes per pixel, writing the colour \<open>(r, g, b, w)\<close>
  at pixel \<open>i\<close> under the RGBW layout places \<open>r, g, b, w\<close> at the offsets
  \<open>4i + 0, 4i + 2, 4i + 1, 4i + 3\<close>, so the group reads \<open>[r, b, g, w]\<close>; under the GRBW
  layout \<open>r\<close> and \<open>g\<close> change places relative to RGBW (\<open>g\<close> at \<open>4i + 0\<close>, \<open>r\<close> at
  \<open>4i + 2\<close>), \<open>b\<close> and \<open>w\<close> stay, so the group reads \<open>[g, b, r, w]\<close>. No other byte of
  the buffer changes.
\<close>

theorem buffer_layout:
  assumes "enable_w_channel strip" and "4 * unat index + 4 \<le> length (pixel_colors strip)"
  shows "set_color_data strip index color =
           Inr (strip\<lparr>pixel_colors :=
                  take (4 * unat index) (pixel_colors strip) @
                  (case color_order strip of
                     LED_STRIP_COLOR_ORDER_RGBW \<Rightarrow> [r color, b color, g color, w color]
                   | LED_STRIP_COLOR_ORDER_GRBW \<Rightarrow> [g color, b color, r color, w color]) @
                  drop (4 * unat index + 4) (pixel_colors strip)\<rparr>)"
proof (cases "color_order strip")
  case LED_STRIP_COLOR_ORDER_RGBW
  then show ?thesis using set_color_data_rgbw4[OF assms] by simp
next
  case LED_STRIP_COLOR_ORDER_GRBW
  then show ?thesis using set_color_data_grbw4[OF assms] by simp
qed

theorem buffer_layout_witness:
  "set_color_data grbw3 1 \<lparr>r = 1, g = 2, b = 3, w = 4\<rparr> =
     Inr (grbw3\<lparr>pixel_colors := [0, 0, 0, 0, 2, 3, 1, 4, 0, 0, 0, 0]\<rparr>)
   \<and> set_color_data (grbw3\<lparr>color_order := LED_STRIP_COLOR_ORDER_RGBW\<rparr>) 1
         \<lparr>r = 1, g = 2, b = 3, w = 4\<rparr> =
     Inr (grbw3\<lparr>color_order := LED_STRIP_COLOR_ORDER_RGBW,
                pixel_colors := [0, 0, 0, 0, 1, 3, 2, 4, 0, 0, 0, 0]\<rparr>)"
  using buffer_layout[of grbw3 1 "\<lparr>r = 1, g = 2, b = 3, w = 4\<rparr>"]
    buffer_layout[of "grbw3\<lparr>color_order := LED_STRIP_COLOR_ORDER_RGBW\<rparr>" 1
      "\<lparr>r = 1, g = 2, b = 3, w = 4\<rparr>"]
  by (simp add: grbw3_def numeral_eq_Suc)










text \<open>
  C8. On an installed strip, \<open>led_strip_set_pixel_rgb\<close> and \<open>led_strip_set_pixel_rgbw\<close>
  with an index at or beyond \<open>led_count\<close> return \<open>ESP_ERR_INVALID_SIZE\<close> and change
  nothing, the pixel buffer included.
\<close>

theorem index_bound_law:
  assumes "handle \<noteq> 0" and "heap s handle = Some strip" and "index \<ge> led_count strip"
  shows "led_strip_set_pixel_rgb handle index cr cg cb s = Inr (ESP_ERR_INVALID_SIZE, s)
       \<and> led_strip_set_pixel_rgbw handle index cr cg cb cw s = Inr (ESP_ERR_INVALID_SIZE, s)"
  using assms by (simp add: led_strip_set_pixel_rgb_def led_strip_set_pixel_rgbw_def deref_def)

theorem index_bound_law_witness:
  "led_strip_set_pixel_rgb 1 5 1 2 3 world5 = Inr (ESP_ERR_INVALID_SIZE, world5)
   \<and> led_strip_set_pixel_rgbw 1 5 1 2 3 4 world5 = Inr (ESP_ERR_INVALID_SIZE, world5)"
  using index_bound_law[of 1 world5 rgb5 5 1 2 3 4]
  by (simp add: world5_def rgb5_def)

section \<open>Timing resolution\<close>

lemma ceil_div_nat:
  fixes x p :: nat
  assumes pos: "0 < p"
  shows "\<lceil>(of_nat x :: real) / of_nat p\<rceil> = int ((x + p - 1) div p)"
proof -
  define c where "c = (x + p - 1) div p"
  have "c * p \<le> x + p - 1" by (simp add: c_def)
  then have lo: "c * p < x + p" using pos by simp
  have "x + p - 1 < p + c * p" unfolding c_def using pos by (rule dividend_less_div_times)
  then have hi: "x \<le> c * p" using pos by simp
  have "(of_nat x :: real) \<le> of_nat (c * p)" using hi by (simp only: of_nat_le_iff)
  then have up: "(of_nat x :: real) / of_nat p \<le> of_int (int c)"
    using pos by (simp add: pos_divide_le_eq)
  have "(of_nat (c * p) :: real) < of_nat (x + p)" using lo by (simp only: of_nat_less_iff)
  then have "(of_nat c - 1) * (of_nat p :: real) < of_nat x"
    by (simp add: algebra_simps)
  then have dn: "of_int (int c) - 1 < (of_nat x :: real) / of_nat p"
    using pos by (simp add: pos_less_divide_eq)
  show ?thesis unfolding c_def[symmetric] using dn up by (rule ceiling_unique)
qed

lemma ns_as_ticks_floor:
  assumes p: "LED_STRIP_NS_PER_TICK apb = of_nat p" and pos: "0 < p"
  shows "\<lfloor>LED_STRIP_NS_AS_TICKS apb (of_nat x)\<rfloor> = int ((x + p - 1) div p)"
proof -
  have "LED_STRIP_NS_AS_TICKS apb (of_nat x) = (of_nat x + of_nat p - 1) / (of_nat p :: real)"
    using pos by (simp add: LED_STRIP_NS_AS_TICKS_def LED_STRIP_ROUND_UP_def p)
  also have "\<dots> = of_nat (x + p - 1) / (of_nat p :: real)"
    using pos by (simp add: of_nat_diff)
  finally show ?thesis
    by (simp add: floor_divide_of_nat_eq)
qed

lemma ticks15:
  assumes p: "LED_STRIP_NS_PER_TICK apb = of_nat p" and p3: "3 \<le> p" and x: "x \<le> 80000"
  shows "uint (to_bitfield15 (LED_STRIP_NS_AS_TICKS apb (of_nat x))) = \<lceil>(of_nat x :: real) / of_nat p\<rceil>"
proof -
  define c where "c = (x + p - 1) div p"
  have pos: "0 < p" using p3 by simp
  have "x + p - 1 < p * 26668"
    using p3 x by simp
  then have "c < 26668" unfolding c_def using pos
    by (simp add: less_mult_imp_div_less mult.commute)
  then have small: "int c < 2 ^ 15" by simp
  have "uint (to_bitfield15 (LED_STRIP_NS_AS_TICKS apb (of_nat x))) = int c mod 2 ^ 15"
    by (simp add: to_bitfield15_def ns_as_ticks_floor[OF p pos] c_def unsigned_of_nat take_bit_eq_mod zmod_int)
  also have "\<dots> = int c" using small by simp
  finally show ?thesis using ceil_div_nat[OF pos, of x] by (simp add: c_def)
qed

lemma tick_period_80MHz: "LED_STRIP_NS_PER_TICK 80000000 = of_nat 100"
  by (simp add: LED_STRIP_NS_PER_TICK_def LED_STRIP_NS_PER_SECOND_def LED_STRIP_CLOCK_DIVIDER_def)

text \<open>
  C6. Let the platform's tick period \<open>LED_STRIP_NS_PER_TICK\<close> be \<open>p\<close> nanoseconds, a whole
  number of at least 3 (100 with the 80 MHz APB clock of the ESP32; below 3 the reset time
  no longer fits the 15-bit field). Resolving the named type SK6822 yields the ticks
  \<open>ceil(300/p), ceil(900/p), ceil(600/p), ceil(600/p)\<close> and the reset time
  \<open>ceil(80000/p)\<close>; WS281x yields \<open>ceil(350/p), ceil(900/p), ceil(900/p), ceil(350/p)\<close>
  and \<open>ceil(50000/p)\<close>; any other named type resolves to what SK6822 resolves to.
\<close>

theorem named_timing_ticks:
  assumes p: "LED_STRIP_NS_PER_TICK apb = of_nat p" and p3: "3 \<le> p"
    and named: "\<not> use_manual_timing cfg"
  shows "(timing_type cfg = LED_STRIP_TYPE_SK6822 \<longrightarrow>
            uint (low_on (map_timing apb cfg)) = \<lceil>300 / real p\<rceil> \<and>
            uint (low_off (map_timing apb cfg)) = \<lceil>900 / real p\<rceil> \<and>
            uint (high_on (map_timing apb cfg)) = \<lceil>600 / real p\<rceil> \<and>
            uint (high_off (map_timing apb cfg)) = \<lceil>600 / real p\<rceil> \<and>
            uint (reset_time (map_timing apb cfg)) = \<lceil>80000 / real p\<rceil>) \<and>
         (timing_type cfg = LED_STRIP_TYPE_WS281x \<longrightarrow>
            uint (low_on (map_timing apb cfg)) = \<lceil>350 / real p\<rceil> \<and>
            uint (low_off (map_timing apb cfg)) = \<lceil>900 / real p\<rceil> \<and>
            uint (high_on (map_timing apb cfg)) = \<lceil>900 / real p\<rceil> \<and>
            uint (high_off (map_timing apb cfg)) = \<lceil>350 / real p\<rceil> \<and>
            uint (reset_time (map_timing apb cfg)) = \<lceil>50000 / real p\<rceil>) \<and>
         (timing_type cfg \<noteq> LED_STRIP_TYPE_SK6822 \<and> timing_type cfg \<noteq> LED_STRIP_TYPE_WS281x \<longrightarrow>
            map_timing apb cfg = map_timing apb (cfg\<lparr>timing_type := LED_STRIP_TYPE_SK6822\<rparr>))"
proof -
  have t: "\<And>x. x \<le> 80000 \<Longrightarrow>
      uint (to_bitfield15 (LED_STRIP_NS_AS_TICKS apb (of_nat x))) = \<lceil>(of_nat x :: real) / of_nat p\<rceil>"
    by (rule ticks15[OF p p3])
  have sk: "timing_type cfg = LED_STRIP_TYPE_SK6822 \<Longrightarrow> map_timing apb cfg =
       \<lparr>low_on = to_bitfield15 (LED_STRIP_NS_AS_TICKS apb (of_nat 300)),
        low_off = to_bitfield15 (LED_STRIP_NS_AS_TICKS apb (of_nat 900)),
        high_on = to_bitfield15 (LED_STRIP_NS_AS_TICKS apb (of_nat 600)),
        high_off = to_bitfield15 (LED_STRIP_NS_AS_TICKS apb (of_nat 600)),
        reset_time = to_bitfield15 (LED_STRIP_NS_AS_TICKS apb (of_nat 80000))\<rparr>"
    using named
    by (simp add: map_timing_def timing_table_def LED_STRIP_TYPE_SK6822_def LED_STRIP_US_AS_TICKS_def)
  have ws: "timing_type cfg = LED_STRIP_TYPE_WS281x \<Longrightarrow> map_timing apb cfg =
       \<lparr>low_on = to_bitfield15 (LED_STRIP_NS_AS_TICKS apb (of_nat 350)),
        low_off = to_bitfield15 (LED_STRIP_NS_AS_TICKS apb (of_nat 900)),
        high_on = to_bitfield15 (LED_STRIP_NS_AS_TICKS apb (of_nat 900)),
        high_off = to_bitfield15 (LED_STRIP_NS_AS_TICKS apb (of_nat 350)),
        reset_time = to_bitfield15 (LED_STRIP_NS_AS_TICKS apb (of_nat 50000))\<rparr>"
    using named
    by (simp add: map_timing_def timing_table_def LED_STRIP_TYPE_WS281x_def LED_STRIP_US_AS_TICKS_def)
  have a: "timing_type cfg = LED_STRIP_TYPE_SK6822 \<longrightarrow>
            uint (low_on (map_timing apb cfg)) = \<lceil>300 / real p\<rceil> \<and>
            uint (low_off (map_timing apb cfg)) = \<lceil>900 / real p\<rceil> \<and>
            uint (high_on (map_timing apb cfg)) = \<lceil>600 / real p\<rceil> \<and>
            uint (high_off (map_timing apb cfg)) = \<lceil>600 / real p\<rceil> \<and>
            uint (reset_time (map_timing apb cfg)) = \<lceil>80000 / real p\<rceil>"
    using t[of 300] t[of 900] t[of 600] t[of 80000] by (simp add: sk)
  have b: "timing_type cfg = LED_STRIP_TYPE_WS281x \<longrightarrow>
            uint (low_on (map_timing apb cfg)) = \<lceil>350 / real p\<rceil> \<and>
            uint (low_off (map_timing apb cfg)) = \<lceil>900 / real p\<rceil> \<and>
            uint (high_on (map_timing apb cfg)) = \<lceil>900 / real p\<rceil> \<and>
            uint (high_off (map_timing apb cfg)) = \<lceil>350 / real p\<rceil> \<and>
            uint (reset_time (map_timing apb cfg)) = \<lceil>50000 / real p\<rceil>"
    using t[of 350] t[of 900] t[of 50000] by (simp add: ws)
  have c: "timing_type cfg \<noteq> LED_STRIP_TYPE_SK6822 \<and> timing_type cfg \<noteq> LED_STRIP_TYPE_WS281x \<longrightarrow>
            map_timing apb cfg = map_timing apb (cfg\<lparr>timing_type := LED_STRIP_TYPE_SK6822\<rparr>)"
    using named by (simp add: map_timing_def)
  from a b c show ?thesis by blast
qed

theorem named_timing_ticks_witness:
  "uint (low_on (map_timing 80000000 sk_cfg)) = 3 \<and>
   uint (low_off (map_timing 80000000 sk_cfg)) = 9 \<and>
   uint (high_on (map_timing 80000000 sk_cfg)) = 6 \<and>
   uint (high_off (map_timing 80000000 sk_cfg)) = 6 \<and>
   uint (reset_time (map_timing 80000000 sk_cfg)) = 800 \<and>
   uint (low_on (map_timing 80000000 (sk_cfg\<lparr>timing_type := LED_STRIP_TYPE_WS281x\<rparr>))) = 4 \<and>
   uint (reset_time (map_timing 80000000 (sk_cfg\<lparr>timing_type := LED_STRIP_TYPE_WS281x\<rparr>))) = 500 \<and>
   map_timing 80000000 (sk_cfg\<lparr>timing_type := 2\<rparr>) = map_timing 80000000 sk_cfg"
  using named_timing_ticks[OF tick_period_80MHz, of sk_cfg]
    named_timing_ticks[OF tick_period_80MHz, of "sk_cfg\<lparr>timing_type := LED_STRIP_TYPE_WS281x\<rparr>"]
    named_timing_ticks[OF tick_period_80MHz, of "sk_cfg\<lparr>timing_type := 2\<rparr>"]
  by (simp add: sk_cfg_def LED_STRIP_TYPE_SK6822_def LED_STRIP_TYPE_WS281x_def)

text \<open>
  The whole-number tick period is needed: the macro adds \<open>align - 1\<close> and the bit-field
  drops the fraction, which is the ceiling only when \<open>x\<close> and the period are whole
  numbers. With a clock of 26666672 Hz the period is just under 300 ns and the 300 ns
  phase resolves to one tick, where the ceiling is two.
\<close>

lemma fractional_tick_period:
  "uint (low_on (map_timing 26666672 sk_cfg)) = 1 \<and>
   \<lceil>300 / LED_STRIP_NS_PER_TICK 26666672\<rceil> = 2"
  by (simp add: map_timing_def timing_table_def sk_cfg_def LED_STRIP_TYPE_SK6822_def
        LED_STRIP_NS_AS_TICKS_def LED_STRIP_ROUND_UP_def LED_STRIP_NS_PER_TICK_def
        LED_STRIP_NS_PER_SECOND_def LED_STRIP_CLOCK_DIVIDER_def to_bitfield15_def)

section \<open>The flush state\<close>

lemma rmt_setup_heap: "rmt_setup e cs s = (err, s') \<Longrightarrow> heap s' = heap s"
proof (induction cs arbitrary: s)
  case Nil
  then show ?case by simp
next
  case (Cons c cs)
  then show ?case
    by (auto simp add: rmt_call_def Let_def split: if_splits prod.splits)
qed

lemma mark_channel_heap: "mark_channel v chan s = Inr s' \<Longrightarrow> heap s' = heap s"
  by (auto simp add: mark_channel_def split: if_splits)

lemma alloc_led_strip_heap:
  "alloc_led_strip e cfg s = (handle, s1) \<Longrightarrow> handle \<noteq> 0 \<Longrightarrow> \<exists>strip. heap s1 handle = Some strip"
  by (auto simp add: alloc_led_strip_def calloc_call_def Let_def split: if_splits prod.splits)

lemma install_never_flushed:
  assumes "led_strip_install e new_handle config s = Inr (ESP_OK, Some handle, s1)"
  shows "handle \<noteq> 0 \<and> (\<exists>strip. heap s1 handle = Some strip \<and> \<not> has_flushed strip)"
  using assms
  by (auto simp add: led_strip_install_def Let_def deref_def dealloc_led_strip_def
        mark_channel_used_def mark_channel_free_def
        simp del: rmt_setup.simps
        split: option.splits if_splits prod.splits sum.splits
        dest!: rmt_setup_heap mark_channel_heap)

lemma flush_done_never_flushed:
  assumes "handle \<noteq> 0" "heap s handle = Some strip" "\<not> has_flushed strip"
  shows "led_strip_flush_done e handle (Some d) s = Inr (ESP_OK, Some True, s)"
  using assms by (simp add: led_strip_flush_done_def deref_def)

lemma start_flush_sets_flag:
  assumes "led_strip_start_flush e handle s = Inr (ESP_OK, s1)"
  shows "handle \<noteq> 0 \<and> (\<exists>strip. heap s1 handle = Some strip \<and> has_flushed strip)"
  using assms
  by (auto simp add: led_strip_start_flush_def flush_with_def led_strip_flush_done_def deref_def
        rmt_call_def Let_def
        split: option.splits if_splits prod.splits sum.splits)

lemma start_flush_busy:
  assumes "handle \<noteq> 0" "heap s handle = Some strip" "has_flushed strip"
    and "rmt_reply e (ext_log s) (Rmt_wait_tx_done (channel strip) 0) = ESP_ERR_TIMEOUT"
  shows "led_strip_start_flush e handle s =
           Inr (ESP_ERR_NOT_FINISHED, s\<lparr>ext_log := ext_log s @ [Rmt_wait_tx_done (channel strip) 0]\<rparr>)"
  using assms
  by (simp add: led_strip_start_flush_def flush_with_def led_strip_flush_done_def deref_def
        rmt_call_def Let_def)

text \<open>
  The flag \<open>has_flushed\<close> is clear on every strip \<open>led_strip_install\<close> hands out
  (\<open>install_never_flushed\<close>), and the pixel operations do not touch it.
\<close>

lemma set_color_data_has_flushed:
  "set_color_data strip index color = Inr strip' \<Longrightarrow> has_flushed strip' = has_flushed strip"
  by (auto simp add: set_color_data_def store_component_def Let_def
        split: if_splits sum.splits led_strip_color_order.splits)

lemma set_pixel_has_flushed:
  assumes "heap s handle = Some strip"
    and "led_strip_set_pixel_rgb handle index cr cg cb s = Inr (err, s1) \<or>
         led_strip_set_pixel_rgbw handle index cr cg cb cw s = Inr (err, s1)"
  shows "\<exists>strip1. heap s1 handle = Some strip1 \<and> has_flushed strip1 = has_flushed strip"
  using assms
  by (auto simp add: led_strip_set_pixel_rgb_def led_strip_set_pixel_rgbw_def deref_def
        store_strip_def Let_def
        split: if_splits sum.splits dest: set_color_data_has_flushed)

lemma fill_loop_has_flushed:
  "fill_loop i strip color = Inr strip' \<Longrightarrow> has_flushed strip' = has_flushed strip"
proof (induction i strip color rule: fill_loop.induct)
  case (1 i handle color)
  show ?case
  proof (cases "i < led_count handle")
    case False
    with "1.prems" show ?thesis by (subst (asm) fill_loop.simps) simp
  next
    case True
    with "1.prems" obtain mid where m: "set_color_data handle i color = Inr mid"
      and rest: "fill_loop (i + 1) mid color = Inr strip'"
      by (subst (asm) fill_loop.simps) (auto split: sum.splits)
    from "1.IH"[OF True m rest] set_color_data_has_flushed[OF m] show ?thesis by simp
  qed
qed

text \<open>
  C7. On an installed strip on which no flush was ever started (\<open>has_flushed\<close> is clear),
  \<open>led_strip_flush_done\<close> reports \<open>done = true\<close> without asking the driver. After a
  successful \<open>led_strip_start_flush\<close>, a second call made while the driver reports the
  transmission as not finished (its zero-wait poll answers \<open>ESP_ERR_TIMEOUT\<close>) returns
  \<open>ESP_ERR_NOT_FINISHED\<close>; the poll is the only call it makes into the driver, so no
  \<open>rmt_write_sample\<close> starts a new transmission, and the strip is unchanged.
\<close>

theorem flush_state_law:
  "(handle \<noteq> 0 \<and> heap s handle = Some strip \<and> \<not> has_flushed strip \<longrightarrow>
      led_strip_flush_done e handle (Some d) s = Inr (ESP_OK, Some True, s)) \<and>
   (led_strip_start_flush e handle s = Inr (ESP_OK, s1) \<and> heap s1 handle = Some strip1 \<and>
    rmt_reply e (ext_log s1) (Rmt_wait_tx_done (channel strip1) 0) = ESP_ERR_TIMEOUT \<longrightarrow>
      led_strip_start_flush e handle s1 =
        Inr (ESP_ERR_NOT_FINISHED,
             s1\<lparr>ext_log := ext_log s1 @ [Rmt_wait_tx_done (channel strip1) 0]\<rparr>))"
proof (intro conjI impI)
  assume "handle \<noteq> 0 \<and> heap s handle = Some strip \<and> \<not> has_flushed strip"
  then show "led_strip_flush_done e handle (Some d) s = Inr (ESP_OK, Some True, s)"
    by (simp add: flush_done_never_flushed)
next
  assume a: "led_strip_start_flush e handle s = Inr (ESP_OK, s1) \<and> heap s1 handle = Some strip1 \<and>
    rmt_reply e (ext_log s1) (Rmt_wait_tx_done (channel strip1) 0) = ESP_ERR_TIMEOUT"
  then have "handle \<noteq> 0 \<and> (\<exists>strip. heap s1 handle = Some strip \<and> has_flushed strip)"
    using start_flush_sets_flag by blast
  with a have "handle \<noteq> 0" "heap s1 handle = Some strip1" "has_flushed strip1" by auto
  then show "led_strip_start_flush e handle s1 =
        Inr (ESP_ERR_NOT_FINISHED,
             s1\<lparr>ext_log := ext_log s1 @ [Rmt_wait_tx_done (channel strip1) 0]\<rparr>)"
    using a by (intro start_flush_busy) simp_all
qed

theorem flush_state_law_witness:
  "led_strip_flush_done busy_env 1 (Some False) world5 = Inr (ESP_OK, Some True, world5) \<and>
   led_strip_start_flush busy_env 1 world5 = Inr (ESP_OK, world5_flushing) \<and>
   led_strip_start_flush busy_env 1 world5_flushing =
     Inr (ESP_ERR_NOT_FINISHED,
          world5_flushing\<lparr>ext_log := ext_log world5_flushing @ [Rmt_wait_tx_done 0 0]\<rparr>)"
proof -
  have first: "led_strip_start_flush busy_env 1 world5 = Inr (ESP_OK, world5_flushing)"
    by (simp add: led_strip_start_flush_def flush_with_def led_strip_flush_done_def deref_def
          rmt_call_def busy_env_def world5_def world5_flushing_def rgb5_def CALC_COLOR_SIZE_def)
  show ?thesis
    using flush_state_law[of 1 world5 rgb5 busy_env False world5_flushing
            "rgb5\<lparr>has_flushed := True\<rparr>"] first
    by (simp add: world5_def world5_flushing_def rgb5_def busy_env_def)
qed

section \<open>Installation and NULL handles\<close>

text \<open>
  C9. For every configuration with \<open>led_count = 2\<close>, \<open>led_strip_install\<close> (given a
  handle variable to fill) fails with \<open>ESP_ERR_NOT_SUPPORTED\<close>; the handle variable, the
  heap, the channel table and the log of calls to the allocator and the driver are what
  they were, so nothing was allocated and nothing else changed.
\<close>

theorem install_two_leds_not_supported:
  assumes "cfg_led_count cfg = 2"
  shows "led_strip_install e (Some v) (Some cfg) s = Inr (ESP_ERR_NOT_SUPPORTED, Some v, s)"
  using assms by (simp add: led_strip_install_def)

theorem install_two_leds_not_supported_witness:
  "led_strip_install busy_env (Some 0) (Some two_led_cfg) fresh_world =
     Inr (ESP_ERR_NOT_SUPPORTED, Some 0, fresh_world)"
  using install_two_leds_not_supported[of two_led_cfg busy_env 0 fresh_world]
  by (simp add: two_led_cfg_def)

text \<open>
  With three LEDs the same call goes on to the allocator and the driver: the guard above
  is what keeps the two-LED call from doing so.
\<close>

lemma find_loop_first_free: "find_loop 0 (False # used) = Some 0"
  by (subst find_loop.simps) simp

lemma install_three_leds_allocates:
  "\<exists>s1. led_strip_install busy_env (Some 0) (Some (two_led_cfg\<lparr>cfg_led_count := 3\<rparr>)) fresh_world =
          Inr (ESP_OK, Some 1, s1) \<and>
        take 2 (ext_log s1) = [Calloc_led_strip, Calloc_pixel_colors 9] \<and>
        rmt_channel_used s1 = [True, False, False, False, False, False, False, False]"
  by (simp add: led_strip_install_def alloc_led_strip_def calloc_call_def rmt_call_def
        deref_def find_empty_channel_def find_loop_first_free mark_channel_used_def mark_channel_def
        RMT_CHANNEL_MAX_def CALC_COLOR_SIZE_def busy_env_def two_led_cfg_def fresh_world_def)

text \<open>
  C10. \<open>led_strip_free\<close> and \<open>led_strip_wait_for_flush_finish\<close> read \<open>handle->channel\<close>
  before any check, so a \<open>NULL\<close> handle is dereferenced instead of being answered with
  \<open>ESP_ERR_INVALID_ARG\<close>.
\<close>

theorem null_handle_dereferenced:
  "led_strip_free e 0 s = Inl Null_deref \<and>
   led_strip_wait_for_flush_finish e 0 s = Inl Null_deref"
  by (simp add: led_strip_free_def led_strip_wait_for_flush_finish_def deref_def)

text \<open>The other operations that take a handle check it first.\<close>

lemma null_handle_checked:
  "led_strip_flush e 0 s = Inr (ESP_ERR_INVALID_ARG, s)"
  "led_strip_start_flush e 0 s = Inr (ESP_ERR_INVALID_ARG, s)"
  "led_strip_flush_done e 0 d s = Inr (ESP_ERR_INVALID_ARG, d, s)"
  "led_strip_set_pixel_rgb 0 index cr cg cb s = Inr (ESP_ERR_INVALID_ARG, s)"
  "led_strip_set_pixel_rgbw 0 index cr cg cb cw s = Inr (ESP_ERR_INVALID_ARG, s)"
  "led_strip_fill_rgb 0 cr cg cb s = Inr (ESP_ERR_INVALID_ARG, s)"
  "led_strip_fill_rgbw 0 cr cg cb cw s = Inr (ESP_ERR_INVALID_ARG, s)"
  by (simp_all add: led_strip_flush_def flush_with_def led_strip_start_flush_def
      led_strip_flush_done_def led_strip_set_pixel_rgb_def led_strip_set_pixel_rgbw_def
      led_strip_fill_rgb_def led_strip_fill_rgbw_def)

end
